theory Spec2Isabelle
  imports Complex_Main "HOL-Library.Multiset"
begin

section \<open>The XCM wallet: data model\<close>

text \<open>
  The wallet class \<open>XcmWallet\<close> composes services of other packages: the route
  configuration, the chain directory, the balance observables, the Polkadot service and
  the XTokens contract. Their results are inputs of the model: configurations are
  records whose builders are functions, and every awaited call of a service is a field of
  the record \<open>World\<close>, returning an error or a value.
\<close>

text \<open>
  \<open>CallType\<close> is declared in the builder package; the wallet names its members
  \<open>Evm\<close> and \<open>Substrate\<close>. \<open>OtherTag\<close> stands for any value of the field
  \<open>type\<close> that is neither of the two.
\<close>

datatype CallType = Evm | Substrate | OtherTag string

text \<open>
  \<open>ContractConfig\<close>, \<open>SubstrateQueryConfig\<close> and \<open>ExtrinsicConfig\<close>: the wallet reads
  the field \<open>type\<close> only and hands the rest to the services.
\<close>

record CallConfig =
  type :: CallType
  module :: string
  func :: string
  args :: "string list"

record Asset =
  key :: string
  originSymbol :: string

record AssetAmount = Asset +
  amount :: int
  decimals :: nat

text \<open>\<open>AssetAmount.fromAsset(asset, {amount, decimals})\<close>: the asset's fields with the two given.\<close>

definition fromAsset :: "'a Asset_scheme \<Rightarrow> int \<Rightarrow> nat \<Rightarrow> AssetAmount" where
  "fromAsset a amt d =
     \<lparr>Asset.key = Asset.key a, originSymbol = originSymbol a, amount = amt, decimals = d\<rparr>"

text \<open>An \<open>AssetAmount\<close> passed where the directory expects an \<open>Asset\<close>.\<close>

definition asAsset :: "'a Asset_scheme \<Rightarrow> Asset" where
  "asAsset a = \<lparr>Asset.key = Asset.key a, originSymbol = originSymbol a\<rparr>"

record Chain =
  key :: string
  ws :: string
  getBalanceAssetId :: "Asset \<Rightarrow> string"
  getAssetId :: "Asset \<Rightarrow> string"
  getAssetPalletInstance :: "Asset \<Rightarrow> nat option"

record Balance =
  key :: string
  balance :: int

datatype error = Error string | TypeError string | InvalidAmountError

datatype ApiPromise = ApiPromise string

datatype EvmClient = EvmClient string

datatype Provider = Provider string

definition getProvider :: "EvmClient \<Rightarrow> Provider" where
  "getProvider c = (case c of EvmClient n \<Rightarrow> Provider n)"

record PolkadotService =
  api :: ApiPromise
  chain :: Chain

subsection \<open>Builder parameters and route configuration\<close>

record BalanceParams =
  address :: string
  asset :: string

record FeeParams =
  api :: ApiPromise
  asset :: string

record ContractParams =
  address :: string
  amount :: int
  asset :: string
  destination :: Chain
  fee :: int
  feeAsset :: string

record ExtrinsicParams =
  address :: string
  amount :: int
  asset :: string
  destination :: Chain
  fee :: int
  feeAsset :: string
  palletInstance :: "nat option"
  source :: Chain

text \<open>
  \<open>destinationFee.amount\<close> is a number or a \<open>FeeConfigBuilder\<close>. A finite number is
  the rational it denotes; the builder, built and called, gives the fee or fails.
\<close>

datatype FeeAmount = Number rat | Builder "FeeParams \<Rightarrow> error + int"

record DestinationFeeConfig =
  amount :: FeeAmount
  asset :: Asset

record FeeAssetConfig =
  asset :: Asset
  balance :: "BalanceParams \<Rightarrow> CallConfig"

record AssetConfig =
  asset :: Asset
  balance :: "BalanceParams \<Rightarrow> CallConfig"
  contract :: "(ContractParams \<Rightarrow> CallConfig) option"
  destinationFee :: DestinationFeeConfig
  extrinsic :: "(ExtrinsicParams \<Rightarrow> CallConfig) option"
  fee :: "FeeAssetConfig option"

record ChainTransferConfig =
  chain :: Chain
  config :: AssetConfig

record TransferConfig =
  asset :: Asset
  source :: ChainTransferConfig
  destination :: ChainTransferConfig

text \<open>The source side of a route: \<open>transferConfig.source.config\<close> and \<open>transferConfig.source.chain\<close>.\<close>

abbreviation sourceConfig :: "TransferConfig \<Rightarrow> AssetConfig" where
  "sourceConfig tc \<equiv> ChainTransferConfig.config (TransferConfig.source tc)"

abbreviation sourceChain :: "TransferConfig \<Rightarrow> Chain" where
  "sourceChain tc \<equiv> ChainTransferConfig.chain (TransferConfig.source tc)"

abbreviation destinationChain :: "TransferConfig \<Rightarrow> Chain" where
  "destinationChain tc \<equiv> ChainTransferConfig.chain (TransferConfig.destination tc)"

subsection \<open>Effects: a trace of the calls made, and a result or an error\<close>

datatype event =
    Erc20Query EvmClient CallConfig string
  | SubstrateQuery ApiPromise CallConfig string
  | ExtrinsicBuild ExtrinsicParams
  | ContractBuild ContractParams
  | EvmFeeEstimate CallConfig Provider int
  | SubstrateFeeEstimate string CallConfig
  | ConsoleLog AssetAmount

type_synonym 'a io = "event list \<times> (error + 'a)"

definition ret :: "'a \<Rightarrow> 'a io" where
  "ret x = ([], Inr x)"

definition throw :: "error \<Rightarrow> 'a io" where
  "throw e = ([], Inl e)"

definition emit :: "event \<Rightarrow> unit io" where
  "emit ev = ([ev], Inr ())"

definition lift :: "error + 'a \<Rightarrow> 'a io" where
  "lift r = ([], r)"

definition await :: "'a io \<Rightarrow> ('a \<Rightarrow> 'b io) \<Rightarrow> 'b io" where
  "await m f =
     (case m of
        (es, Inl e) \<Rightarrow> (es, Inl e)
      | (es, Inr x) \<Rightarrow> (case f x of (es', r) \<Rightarrow> (es @ es', r)))"

definition isBuild :: "event \<Rightarrow> bool" where
  "isBuild ev = (case ev of ExtrinsicBuild _ \<Rightarrow> True | ContractBuild _ \<Rightarrow> True | _ \<Rightarrow> False)"

definition isContractBuild :: "event \<Rightarrow> bool" where
  "isContractBuild ev = (case ev of ContractBuild _ \<Rightarrow> True | _ \<Rightarrow> False)"

section \<open>Transfer assembly\<close>

definition MissingBuilderError :: error where
  "MissingBuilderError = Error ''Either contract or extrinsic must be provided''"

definition extrinsicParams ::
  "int \<Rightarrow> string \<Rightarrow> AssetAmount \<Rightarrow> TransferConfig \<Rightarrow> ExtrinsicParams" where
  "extrinsicParams amt dstAddress dstFee transferConfig =
     (let src = source transferConfig in
      \<lparr>ExtrinsicParams.address = dstAddress,
       amount = amt,
       asset = getAssetId (ChainTransferConfig.chain src) (TransferConfig.asset transferConfig),
       destination = ChainTransferConfig.chain (destination transferConfig),
       fee = AssetAmount.amount dstFee,
       feeAsset = getAssetId (ChainTransferConfig.chain src) (asAsset dstFee),
       palletInstance =
         getAssetPalletInstance (ChainTransferConfig.chain src) (TransferConfig.asset transferConfig),
       source = ChainTransferConfig.chain src\<rparr>)"

definition contractParams ::
  "int \<Rightarrow> string \<Rightarrow> AssetAmount \<Rightarrow> TransferConfig \<Rightarrow> ContractParams" where
  "contractParams amt dstAddress dstFee transferConfig =
     (let src = source transferConfig in
      \<lparr>ContractParams.address = dstAddress,
       amount = amt,
       asset = getAssetId (ChainTransferConfig.chain src) (TransferConfig.asset transferConfig),
       destination = ChainTransferConfig.chain (destination transferConfig),
       fee = AssetAmount.amount dstFee,
       feeAsset = getAssetId (ChainTransferConfig.chain src) (asAsset dstFee)\<rparr>)"

definition buildTransfer ::
  "int \<Rightarrow> string \<Rightarrow> AssetAmount \<Rightarrow> TransferConfig \<Rightarrow> CallConfig io" where
  "buildTransfer amt dstAddress dstFee transferConfig =
     (let cfg = config (source transferConfig) in
      case extrinsic cfg of
        Some b \<Rightarrow>
          (let p = extrinsicParams amt dstAddress dstFee transferConfig in
           await (emit (ExtrinsicBuild p)) (\<lambda>_. ret (b p)))
      | None \<Rightarrow>
          (case contract cfg of
             Some b \<Rightarrow>
               (let p = contractParams amt dstAddress dstFee transferConfig in
                await (emit (ContractBuild p)) (\<lambda>_. ret (b p)))
           | None \<Rightarrow> throw MissingBuilderError))"

section \<open>Decimal normalizer\<close>

text \<open>
  Modelled from the spec: \<open>convertDecimals\<close> of the utilities package, which the wallet
  imports and whose code is not part of the wallet. The spec's words: when
  \<open>toDecimals > fromDecimals\<close> it multiplies by \<open>10^(toDecimals - fromDecimals)\<close>; when
  \<open>toDecimals < fromDecimals\<close> it divides by \<open>10^(fromDecimals - toDecimals)\<close>,
  truncating toward zero; it fails with \<open>InvalidAmountError\<close> if \<open>amount < 0\<close>.
\<close>

definition convertDecimals :: "int \<Rightarrow> nat \<Rightarrow> nat \<Rightarrow> error + int" where
  "convertDecimals n fromDecimals toDecimals =
     (if n < 0 then Inl InvalidAmountError
      else if toDecimals > fromDecimals then Inr (n * 10 ^ (toDecimals - fromDecimals))
      else if toDecimals < fromDecimals then Inr (n div 10 ^ (fromDecimals - toDecimals))
      else Inr n)"

text \<open>Converting and converting back with the decimals swapped.\<close>

definition roundTrip :: "int \<Rightarrow> nat \<Rightarrow> nat \<Rightarrow> error + int" where
  "roundTrip n d1 d2 =
     (case convertDecimals n d1 d2 of
        Inl e \<Rightarrow> Inl e
      | Inr m \<Rightarrow> convertDecimals m d2 d1)"

section \<open>The wallet\<close>

text \<open>
  The fields of the wallet (\<open>evmCliets\<close>) and the services it awaits. Each service call
  returns \<open>Inl\<close> where the call throws or its promise rejects.
\<close>

record World =
  evmCliets :: "string \<Rightarrow> EvmClient option"
  configBuilder :: "Asset \<Rightarrow> Chain \<Rightarrow> Chain \<Rightarrow> error + TransferConfig"
  polkadotApi :: "string \<Rightarrow> error + ApiPromise"
  erc20Balance :: "EvmClient \<Rightarrow> CallConfig \<Rightarrow> string \<Rightarrow> error + Balance"
  substrateBalance :: "ApiPromise \<Rightarrow> CallConfig \<Rightarrow> string \<Rightarrow> error + Balance"
  createPolkadotService :: "Chain \<Rightarrow> error + PolkadotService"
  getAssetDecimals :: "PolkadotService \<Rightarrow> Asset \<Rightarrow> error + nat"
  polkadotGetFee :: "PolkadotService \<Rightarrow> string \<Rightarrow> CallConfig \<Rightarrow> error + int"
  xTokensGetFee :: "CallConfig \<Rightarrow> Provider \<Rightarrow> int \<Rightarrow> error + int"
  toBigInt :: "rat \<Rightarrow> nat \<Rightarrow> int"

text \<open>
  \<open>getEvmClient\<close> throws when the chain has no client; the text of the chain that the
  message interpolates is left out of the model.
\<close>

definition getEvmClient :: "World \<Rightarrow> Chain \<Rightarrow> EvmClient io" where
  "getEvmClient w c =
     (case evmCliets w (Chain.key c) of
        None \<Rightarrow> throw (Error ''No evm configuration found'')
      | Some client \<Rightarrow> ret client)"

definition getPolkadotApi :: "World \<Rightarrow> Chain \<Rightarrow> ApiPromise io" where
  "getPolkadotApi w c = lift (polkadotApi w (ws c))"

definition getTransferConfig :: "World \<Rightarrow> Chain \<Rightarrow> Chain \<Rightarrow> Asset \<Rightarrow> TransferConfig io" where
  "getTransferConfig w srcChain dstChain a = lift (configBuilder w a srcChain dstChain)"

definition getErc20Balance :: "World \<Rightarrow> Asset \<Rightarrow> Chain \<Rightarrow> CallConfig \<Rightarrow> Balance io" where
  "getErc20Balance w a c cfg =
     await (getEvmClient w c) (\<lambda>evmClient.
     await (emit (Erc20Query evmClient cfg (Asset.key a))) (\<lambda>_.
     lift (erc20Balance w evmClient cfg (Asset.key a))))"

definition getSubstrateBalance :: "World \<Rightarrow> Asset \<Rightarrow> Chain \<Rightarrow> CallConfig \<Rightarrow> Balance io" where
  "getSubstrateBalance w a c cfg =
     await (getPolkadotApi w c) (\<lambda>api.
     await (emit (SubstrateQuery api cfg (Asset.key a))) (\<lambda>_.
     lift (substrateBalance w api cfg (Asset.key a))))"

definition getBalance :: "World \<Rightarrow> string \<Rightarrow> TransferConfig \<Rightarrow> AssetAmount io" where
  "getBalance w addr transferConfig =
     (let src = source transferConfig;
          a = TransferConfig.asset transferConfig;
          c = ChainTransferConfig.chain src;
          assetId = getBalanceAssetId c a;
          assetConfig = config src;
          balanceConfig =
            AssetConfig.balance assetConfig \<lparr>BalanceParams.address = addr, asset = assetId\<rparr>
      in
      await (if type balanceConfig = Evm
             then getErc20Balance w a c balanceConfig
             else getSubstrateBalance w a c balanceConfig) (\<lambda>bal.
      await (lift (createPolkadotService w c)) (\<lambda>polkadot.
      await (lift (getAssetDecimals w polkadot a)) (\<lambda>d.
      ret (fromAsset a (Balance.balance bal) d)))))"

definition getFeeBalance :: "World \<Rightarrow> string \<Rightarrow> TransferConfig \<Rightarrow> AssetAmount io" where
  "getFeeBalance w addr transferConfig =
     (let src = source transferConfig;
          a = TransferConfig.asset transferConfig;
          c = ChainTransferConfig.chain src;
          assetId = getBalanceAssetId c a;
          assetConfig = config src
      in
      await (case fee assetConfig of
               Some f \<Rightarrow>
                 (let balanceConfig =
                        FeeAssetConfig.balance f
                          \<lparr>BalanceParams.address = addr, asset = assetId\<rparr>
                  in await (getSubstrateBalance w a c balanceConfig) (\<lambda>bal.
                     ret (FeeAssetConfig.asset f, bal)))
             | None \<Rightarrow> ret (a, \<lparr>Balance.key = Asset.key a, balance = 0\<rparr>)) (\<lambda>(feeAsset, bal).
      await (lift (createPolkadotService w c)) (\<lambda>polkadot.
      await (lift (getAssetDecimals w polkadot feeAsset)) (\<lambda>d.
      ret (fromAsset feeAsset (Balance.balance bal) d)))))"

definition getDestinationFee :: "World \<Rightarrow> TransferConfig \<Rightarrow> AssetAmount io" where
  "getDestinationFee w transferConfig =
     (let cfg = config (source transferConfig);
          amt = DestinationFeeConfig.amount (destinationFee cfg);
          a = DestinationFeeConfig.asset (destinationFee cfg)
      in
      await (lift (createPolkadotService w
                     (ChainTransferConfig.chain (destination transferConfig)))) (\<lambda>polkadot.
      await (lift (getAssetDecimals w polkadot a)) (\<lambda>d.
      case amt of
        Number n \<Rightarrow> ret (fromAsset a (toBigInt w n d) d)
      | Builder b \<Rightarrow>
          await (lift (b \<lparr>FeeParams.api = PolkadotService.api polkadot,
                           asset = getAssetId (PolkadotService.chain polkadot) a\<rparr>))
            (\<lambda>feeBalance. ret (fromAsset a feeBalance d)))))"

text \<open>
  \<open>getSourceFee\<close> reads \<open>this.evmCliets[source.chain.key]\<close> directly: with no client
  for the chain, \<open>evmClient.getProvider()\<close> is a \<open>TypeError\<close>.
\<close>

definition getSourceFee ::
  "World \<Rightarrow> int \<Rightarrow> string \<Rightarrow> string \<Rightarrow> AssetAmount \<Rightarrow> TransferConfig \<Rightarrow> AssetAmount io" where
  "getSourceFee w amt srcAddress dstAddress dstFee transferConfig =
     (let src = source transferConfig in
      await (lift (createPolkadotService w (ChainTransferConfig.chain src))) (\<lambda>polkadot.
      await (lift (getAssetDecimals w polkadot (asAsset dstFee))) (\<lambda>d.
      await (buildTransfer amt dstAddress dstFee transferConfig) (\<lambda>transfer.
      await (if type transfer = Evm
             then (case evmCliets w (Chain.key (ChainTransferConfig.chain src)) of
                     None \<Rightarrow> throw (TypeError ''Cannot read properties of undefined'')
                   | Some evmClient \<Rightarrow>
                       await (emit (EvmFeeEstimate transfer (getProvider evmClient) amt)) (\<lambda>_.
                       await (lift (xTokensGetFee w transfer (getProvider evmClient) amt)) (\<lambda>f.
                       lift (convertDecimals f 18 d))))
             else await (emit (SubstrateFeeEstimate srcAddress transfer)) (\<lambda>_.
                  lift (polkadotGetFee w polkadot srcAddress transfer))) (\<lambda>f.
      ret (fromAsset dstFee f d))))))"

text \<open>\<open>getSourceData\<close> has no return statement: its promise resolves to no value.\<close>

definition getSourceData ::
  "World \<Rightarrow> string \<Rightarrow> Chain \<Rightarrow> string \<Rightarrow> Chain \<Rightarrow> Asset \<Rightarrow> unit io" where
  "getSourceData w srcAddr srcChain dstAddr dstChain a =
     await (getTransferConfig w srcChain dstChain a) (\<lambda>transferConfig.
     await (getBalance w srcAddr transferConfig) (\<lambda>bal.
     await (getFeeBalance w srcAddr transferConfig) (\<lambda>feeBalance.
     await (getDestinationFee w transferConfig) (\<lambda>dstFee.
     await (emit (ConsoleLog bal)) (\<lambda>_.
     await (emit (ConsoleLog feeBalance)) (\<lambda>_.
     await (emit (ConsoleLog dstFee)) (\<lambda>_.
     await (getSourceFee w (AssetAmount.amount bal) srcAddr dstAddr dstFee transferConfig)
       (\<lambda>sourceFee.
     await (emit (ConsoleLog sourceFee)) (\<lambda>_.
     ret ())))))))))"

section \<open>Subscription fan-in\<close>



record KeyConfig =
  key :: string
  config :: CallConfig







definition isBalanceQuery :: "event \<Rightarrow> bool" where
  "isBalanceQuery ev =
     (case ev of Erc20Query _ _ _ \<Rightarrow> True | SubstrateQuery _ _ _ \<Rightarrow> True | _ \<Rightarrow> False)"

definition isErc20Query :: "event \<Rightarrow> bool" where
  "isErc20Query ev = (case ev of Erc20Query _ _ _ \<Rightarrow> True | _ \<Rightarrow> False)"

section \<open>A route and its services, for concrete runs\<close>

definition assetX :: Asset where
  "assetX = \<lparr>Asset.key = ''x'', originSymbol = ''X''\<rparr>"

definition assetY :: Asset where
  "assetY = \<lparr>Asset.key = ''y'', originSymbol = ''Y''\<rparr>"

definition chainA :: Chain where
  "chainA = \<lparr>Chain.key = ''a'', ws = ''wss://a'', getBalanceAssetId = Asset.key,
             getAssetId = Asset.key, getAssetPalletInstance = (\<lambda>_. Some 10)\<rparr>"

definition chainB :: Chain where
  "chainB = \<lparr>Chain.key = ''b'', ws = ''wss://b'', getBalanceAssetId = Asset.key,
             getAssetId = Asset.key, getAssetPalletInstance = (\<lambda>_. None)\<rparr>"

definition substrateTokens :: "BalanceParams \<Rightarrow> CallConfig" where
  "substrateTokens p =
     \<lparr>type = Substrate, module = ''tokens'', func = ''accounts'',
      args = [BalanceParams.address p, BalanceParams.asset p]\<rparr>"

definition erc20 :: "BalanceParams \<Rightarrow> CallConfig" where
  "erc20 p =
     \<lparr>type = Evm, module = ''Erc20'', func = ''balanceOf'',
      args = [BalanceParams.address p, BalanceParams.asset p]\<rparr>"


definition xTokensExtrinsic :: "ExtrinsicParams \<Rightarrow> CallConfig" where
  "xTokensExtrinsic p =
     \<lparr>type = Substrate, module = ''xTokens'', func = ''transfer'',
      args = [ExtrinsicParams.asset p, ExtrinsicParams.address p]\<rparr>"

definition xTokensContract :: "ContractParams \<Rightarrow> CallConfig" where
  "xTokensContract p =
     \<lparr>type = Evm, module = ''Xtokens'', func = ''transfer'',
      args = [ContractParams.asset p, ContractParams.address p]\<rparr>"

definition configA :: AssetConfig where
  "configA =
     \<lparr>AssetConfig.asset = assetX, balance = substrateTokens, contract = None,
      destinationFee = \<lparr>DestinationFeeConfig.amount = Builder (\<lambda>_. Inr 7), asset = assetX\<rparr>,
      extrinsic = Some xTokensExtrinsic, fee = None\<rparr>"

definition configB :: AssetConfig where
  "configB =
     \<lparr>AssetConfig.asset = assetX, balance = erc20, contract = Some xTokensContract,
      destinationFee = \<lparr>DestinationFeeConfig.amount = Builder (\<lambda>_. Inr 7), asset = assetX\<rparr>,
      extrinsic = None, fee = None\<rparr>"

definition routeAB :: TransferConfig where
  "routeAB =
     \<lparr>TransferConfig.asset = assetX,
      source = \<lparr>ChainTransferConfig.chain = chainA, config = configA\<rparr>,
      destination = \<lparr>ChainTransferConfig.chain = chainB, config = configB\<rparr>\<rparr>"

definition routeBA :: TransferConfig where
  "routeBA =
     \<lparr>TransferConfig.asset = assetX,
      source = \<lparr>ChainTransferConfig.chain = chainB, config = configB\<rparr>,
      destination = \<lparr>ChainTransferConfig.chain = chainA, config = configA\<rparr>\<rparr>"

text \<open>
  The services: chain \<open>b\<close> has an EVM client, every balance is 5, an asset has 12 decimals
  on chain \<open>a\<close> and 18 on chain \<open>b\<close>, the XTokens fee is 21000000000000000 wei.
\<close>

definition world :: World where
  "world =
     \<lparr>evmCliets = (\<lambda>k. if k = ''b'' then Some (EvmClient ''b'') else None),
      configBuilder = (\<lambda>a s d.
        if Chain.key s = ''a'' \<and> Chain.key d = ''b'' then Inr routeAB
        else if Chain.key s = ''b'' \<and> Chain.key d = ''a'' then Inr routeBA
        else Inl (Error ''no route'')),
      polkadotApi = (\<lambda>u. Inr (ApiPromise u)),
      erc20Balance = (\<lambda>c cfg k. Inr \<lparr>Balance.key = k, balance = 5\<rparr>),
      substrateBalance = (\<lambda>a cfg k. Inr \<lparr>Balance.key = k, balance = 5\<rparr>),
      createPolkadotService = (\<lambda>c. Inr \<lparr>PolkadotService.api = ApiPromise (ws c), chain = c\<rparr>),
      getAssetDecimals = (\<lambda>p a. if Chain.key (PolkadotService.chain p) = ''a'' then Inr 12 else Inr 18),
      polkadotGetFee = (\<lambda>p addr cfg. Inr 3),
      xTokensGetFee = (\<lambda>cfg p n. Inr 21000000000000000),
      toBigInt = (\<lambda>r d. \<lfloor>r * 10 ^ d\<rfloor>)\<rparr>"

text \<open>Routes out of chain \<open>a\<close> with neither builder, with both, and with a fee asset.\<close>

definition routeNone :: TransferConfig where
  "routeNone =
     routeAB\<lparr>source := \<lparr>ChainTransferConfig.chain = chainA,
                           config = configA\<lparr>extrinsic := None\<rparr>\<rparr>\<rparr>"

definition routeBoth :: TransferConfig where
  "routeBoth =
     routeAB\<lparr>source := \<lparr>ChainTransferConfig.chain = chainA,
                           config = configA\<lparr>contract := Some xTokensContract\<rparr>\<rparr>\<rparr>"

definition feeY :: FeeAssetConfig where
  "feeY = \<lparr>FeeAssetConfig.asset = assetY, balance = substrateTokens\<rparr>"

definition routeFee :: TransferConfig where
  "routeFee =
     routeAB\<lparr>source := \<lparr>ChainTransferConfig.chain = chainA,
                           config = configA\<lparr>fee := Some feeY\<rparr>\<rparr>\<rparr>"

definition dstFee7 :: AssetAmount where
  "dstFee7 = fromAsset assetX 7 18"

text \<open>The same services, with 12 decimals on every chain.\<close>

definition world12 :: World where
  "world12 = world\<lparr>getAssetDecimals := (\<lambda>p a. Inr 12)\<rparr>"

text \<open>
  The same services, where the chain query answers 99 for the asset id \<open>y\<close> and 5 for
  any other.
\<close>

definition worldBalances :: World where
  "worldBalances =
     world\<lparr>substrateBalance := (\<lambda>a cfg k.
       Inr \<lparr>Balance.key = k,
            balance = (if args cfg = [''alice'', ''y''] then 99 else 5)\<rparr>)\<rparr>"

text \<open>The same services, where on every chain asset \<open>y\<close> has 6 decimals and any other 12.\<close>

definition worldDecimals :: World where
  "worldDecimals =
     world\<lparr>getAssetDecimals := (\<lambda>p a. if Asset.key a = ''y'' then Inr 6 else Inr 12)\<rparr>"


section \<open>The balance as the specification words it\<close>

text \<open>The balance configuration \<open>getBalance\<close> builds for an address on a route.\<close>

abbreviation sourceBalanceConfig :: "string \<Rightarrow> TransferConfig \<Rightarrow> CallConfig" where
  "sourceBalanceConfig addr tc \<equiv>
     AssetConfig.balance (sourceConfig tc)
       \<lparr>BalanceParams.address = addr,
        asset = getBalanceAssetId (sourceChain tc) (TransferConfig.asset tc)\<rparr>"

text \<open>
  The specification's \<open>getBalance\<close>: the same dispatch, then the raw balance converted
  from the asset's decimals on the source chain into its decimals on the destination
  chain, both looked up in the chain directory.
\<close>

definition spec_getBalance :: "World \<Rightarrow> string \<Rightarrow> TransferConfig \<Rightarrow> AssetAmount io" where
  "spec_getBalance w addr transferConfig =
     (let a = TransferConfig.asset transferConfig;
          c = sourceChain transferConfig;
          balanceConfig = sourceBalanceConfig addr transferConfig
      in
      await (if type balanceConfig = Evm
             then getErc20Balance w a c balanceConfig
             else getSubstrateBalance w a c balanceConfig) (\<lambda>bal.
      await (lift (createPolkadotService w c)) (\<lambda>srcService.
      await (lift (getAssetDecimals w srcService a)) (\<lambda>srcDecimals.
      await (lift (createPolkadotService w (destinationChain transferConfig))) (\<lambda>dstService.
      await (lift (getAssetDecimals w dstService a)) (\<lambda>dstDecimals.
      await (lift (convertDecimals (Balance.balance bal) srcDecimals dstDecimals)) (\<lambda>n.
      ret (fromAsset a n dstDecimals))))))))"

text \<open>
  The balance configuration \<open>getFeeBalance\<close> builds with the fee asset's balance
  builder; the asset it passes is the balance id of the transfer asset.
\<close>

abbreviation feeBalanceConfig :: "FeeAssetConfig \<Rightarrow> string \<Rightarrow> TransferConfig \<Rightarrow> CallConfig" where
  "feeBalanceConfig f addr tc \<equiv>
     FeeAssetConfig.balance f
       \<lparr>BalanceParams.address = addr,
        asset = getBalanceAssetId (sourceChain tc) (TransferConfig.asset tc)\<rparr>"

definition isConsoleLog :: "event \<Rightarrow> bool" where
  "isConsoleLog ev = (case ev of ConsoleLog _ \<Rightarrow> True | _ \<Rightarrow> False)"

section \<open>Laws of the effect combinators\<close>

lemma await_ret: "await (ret x) f = f x"
  by (simp add: await_def ret_def split: prod.splits)

lemma await_throw: "await (throw e) f = throw e"
  by (simp add: await_def throw_def)

lemma await_lift_Inr: "await (lift (Inr x)) f = f x"
  by (simp add: await_def lift_def split: prod.splits)

lemma await_lift_Inl: "await (lift (Inl e)) f = ([], Inl e)"
  by (simp add: await_def lift_def)

lemma await_emit: "await (emit ev) f = (ev # fst (f ()), snd (f ()))"
  by (simp add: await_def emit_def split: prod.splits)

lemma await_result: "await (es, Inr x) f = (es @ fst (f x), snd (f x))"
  by (simp add: await_def split: prod.splits)

lemma await_error: "await (es, Inl e) f = (es, Inl e)"
  by (simp add: await_def)

lemmas io_simps =
  await_ret await_throw await_lift_Inr await_lift_Inl await_emit await_result await_error

section \<open>Properties of the transfer assembly\<close>

lemma buildTransfer_extrinsic:
  "extrinsic (sourceConfig tc) = Some b \<Longrightarrow>
   buildTransfer amt d f tc =
     ([ExtrinsicBuild (extrinsicParams amt d f tc)], Inr (b (extrinsicParams amt d f tc)))"
  by (simp add: buildTransfer_def Let_def await_emit ret_def)

lemma buildTransfer_contract:
  "extrinsic (sourceConfig tc) = None \<Longrightarrow> contract (sourceConfig tc) = Some b \<Longrightarrow>
   buildTransfer amt d f tc =
     ([ContractBuild (contractParams amt d f tc)], Inr (b (contractParams amt d f tc)))"
  by (simp add: buildTransfer_def Let_def await_emit ret_def)

lemma buildTransfer_neither:
  "extrinsic (sourceConfig tc) = None \<Longrightarrow> contract (sourceConfig tc) = None \<Longrightarrow>
   buildTransfer amt d f tc = ([], Inl MissingBuilderError)"
  by (simp add: buildTransfer_def Let_def throw_def)

text \<open>
  Claim C5. For every transfer configuration, \<open>buildTransfer\<close> takes exactly one of the
  two builder branches, chosen by which builder the source configuration holds. With an
  extrinsic builder the trace is the single call of that builder on the extrinsic
  parameters and the result is the call it builds; with a contract builder and no
  extrinsic builder the trace is the single call of the contract builder on the contract
  parameters and the result is the call it builds; with neither builder it fails with the
  error \<open>Either contract or extrinsic must be provided\<close>, no builder is called and no call
  is returned.
\<close>

theorem buildTransfer_one_branch_or_error:
  "(extrinsic (sourceConfig tc) = None \<and> contract (sourceConfig tc) = None \<longrightarrow>
      buildTransfer amt d f tc = ([], Inl MissingBuilderError)) \<and>
   (\<forall>eb. extrinsic (sourceConfig tc) = Some eb \<longrightarrow>
      buildTransfer amt d f tc =
        ([ExtrinsicBuild (extrinsicParams amt d f tc)], Inr (eb (extrinsicParams amt d f tc)))) \<and>
   (\<forall>cb. extrinsic (sourceConfig tc) = None \<longrightarrow> contract (sourceConfig tc) = Some cb \<longrightarrow>
      buildTransfer amt d f tc =
        ([ContractBuild (contractParams amt d f tc)], Inr (cb (contractParams amt d f tc))))"
proof (intro conjI allI impI)
  assume "extrinsic (sourceConfig tc) = None \<and> contract (sourceConfig tc) = None"
  then show "buildTransfer amt d f tc = ([], Inl MissingBuilderError)"
    by (simp add: buildTransfer_neither)
next
  fix eb
  assume "extrinsic (sourceConfig tc) = Some eb"
  then show "buildTransfer amt d f tc =
      ([ExtrinsicBuild (extrinsicParams amt d f tc)], Inr (eb (extrinsicParams amt d f tc)))"
    by (rule buildTransfer_extrinsic)
next
  fix cb
  assume "extrinsic (sourceConfig tc) = None" and "contract (sourceConfig tc) = Some cb"
  then show "buildTransfer amt d f tc =
      ([ContractBuild (contractParams amt d f tc)], Inr (cb (contractParams amt d f tc)))"
    by (rule buildTransfer_contract)
qed

theorem buildTransfer_one_branch_or_error_witness:
  "buildTransfer 5 ''bob'' dstFee7 routeNone = ([], Inl MissingBuilderError) \<and>
   buildTransfer 5 ''bob'' dstFee7 routeAB =
     ([ExtrinsicBuild
         \<lparr>ExtrinsicParams.address = ''bob'', amount = 5, asset = ''x'', destination = chainB,
          fee = 7, feeAsset = ''x'', palletInstance = Some 10, source = chainA\<rparr>],
      Inr \<lparr>type = Substrate, module = ''xTokens'', func = ''transfer'',
           args = [''x'', ''bob'']\<rparr>) \<and>
   buildTransfer 5 ''bob'' dstFee7 routeBA =
     ([ContractBuild
         \<lparr>ContractParams.address = ''bob'', amount = 5, asset = ''x'', destination = chainA,
          fee = 7, feeAsset = ''x''\<rparr>],
      Inr \<lparr>type = Evm, module = ''Xtokens'', func = ''transfer'', args = [''x'', ''bob'']\<rparr>)"
proof -
  have n: "extrinsic (sourceConfig routeNone) = None \<and> contract (sourceConfig routeNone) = None"
    by (simp add: routeNone_def routeAB_def configA_def)
  have e: "extrinsic (sourceConfig routeAB) = Some xTokensExtrinsic"
    by (simp add: routeAB_def configA_def)
  have c: "extrinsic (sourceConfig routeBA) = None"
    "contract (sourceConfig routeBA) = Some xTokensContract"
    by (simp_all add: routeBA_def configB_def)
  have pe: "extrinsicParams 5 ''bob'' dstFee7 routeAB =
      \<lparr>ExtrinsicParams.address = ''bob'', amount = 5, asset = ''x'', destination = chainB,
       fee = 7, feeAsset = ''x'', palletInstance = Some 10, source = chainA\<rparr>"
    by (simp add: extrinsicParams_def routeAB_def chainA_def assetX_def dstFee7_def
        fromAsset_def asAsset_def Let_def)
  have pc: "contractParams 5 ''bob'' dstFee7 routeBA =
      \<lparr>ContractParams.address = ''bob'', amount = 5, asset = ''x'', destination = chainA,
       fee = 7, feeAsset = ''x''\<rparr>"
    by (simp add: contractParams_def routeBA_def chainB_def assetX_def dstFee7_def
        fromAsset_def asAsset_def Let_def)
  have ve: "xTokensExtrinsic
      \<lparr>ExtrinsicParams.address = ''bob'', amount = 5, asset = ''x'', destination = chainB,
       fee = 7, feeAsset = ''x'', palletInstance = Some 10, source = chainA\<rparr> =
      \<lparr>type = Substrate, module = ''xTokens'', func = ''transfer'', args = [''x'', ''bob'']\<rparr>"
    by (simp add: xTokensExtrinsic_def)
  have vc: "xTokensContract
      \<lparr>ContractParams.address = ''bob'', amount = 5, asset = ''x'', destination = chainA,
       fee = 7, feeAsset = ''x''\<rparr> =
      \<lparr>type = Evm, module = ''Xtokens'', func = ''transfer'', args = [''x'', ''bob'']\<rparr>"
    by (simp add: xTokensContract_def)
  from buildTransfer_one_branch_or_error [of routeNone 5 "''bob''" dstFee7] n
  have 1: "buildTransfer 5 ''bob'' dstFee7 routeNone = ([], Inl MissingBuilderError)"
    by blast
  from buildTransfer_one_branch_or_error [of routeAB 5 "''bob''" dstFee7] e
  have 2: "buildTransfer 5 ''bob'' dstFee7 routeAB =
      ([ExtrinsicBuild (extrinsicParams 5 ''bob'' dstFee7 routeAB)],
       Inr (xTokensExtrinsic (extrinsicParams 5 ''bob'' dstFee7 routeAB)))"
    by blast
  from buildTransfer_one_branch_or_error [of routeBA 5 "''bob''" dstFee7] c
  have 3: "buildTransfer 5 ''bob'' dstFee7 routeBA =
      ([ContractBuild (contractParams 5 ''bob'' dstFee7 routeBA)],
       Inr (xTokensContract (contractParams 5 ''bob'' dstFee7 routeBA)))"
    by blast
  show ?thesis
    unfolding 1 2 3 pe pc ve vc by simp
qed

text \<open>
  Claim C9. For every transfer configuration that holds both an extrinsic builder and a
  contract builder, \<open>buildTransfer\<close> takes the extrinsic branch: the call returned is the
  one the extrinsic builder builds, and the contract builder is never called.
\<close>

theorem buildTransfer_extrinsic_precedence:
  assumes "extrinsic (sourceConfig tc) = Some eb"
    and "contract (sourceConfig tc) = Some cb"
  shows "buildTransfer amt d f tc =
           ([ExtrinsicBuild (extrinsicParams amt d f tc)], Inr (eb (extrinsicParams amt d f tc)))
         \<and> filter isContractBuild (fst (buildTransfer amt d f tc)) = []"
  using assms by (simp add: buildTransfer_extrinsic isContractBuild_def)

theorem buildTransfer_extrinsic_precedence_witness:
  "extrinsic (sourceConfig routeBoth) = Some xTokensExtrinsic \<and>
   contract (sourceConfig routeBoth) = Some xTokensContract \<and>
   snd (buildTransfer 5 ''bob'' dstFee7 routeBoth) =
     Inr \<lparr>type = Substrate, module = ''xTokens'', func = ''transfer'', args = [''x'', ''bob'']\<rparr> \<and>
   filter isContractBuild (fst (buildTransfer 5 ''bob'' dstFee7 routeBoth)) = []"
proof -
  have e: "extrinsic (sourceConfig routeBoth) = Some xTokensExtrinsic"
    by (simp add: routeBoth_def routeAB_def configA_def)
  have c: "contract (sourceConfig routeBoth) = Some xTokensContract"
    by (simp add: routeBoth_def routeAB_def configA_def)
  have v: "xTokensExtrinsic (extrinsicParams 5 ''bob'' dstFee7 routeBoth) =
      \<lparr>type = Substrate, module = ''xTokens'', func = ''transfer'', args = [''x'', ''bob'']\<rparr>"
    by (simp add: xTokensExtrinsic_def extrinsicParams_def routeBoth_def routeAB_def
        configA_def chainA_def assetX_def Let_def)
  from buildTransfer_extrinsic_precedence [OF e c, of 5 "''bob''" dstFee7]
  show ?thesis using e c v by (simp add: isContractBuild_def)
qed

section \<open>Properties of the balance query\<close>

lemma getSubstrateBalance_ok:
  "polkadotApi w (ws c) = Inr a \<Longrightarrow> substrateBalance w a cfg (Asset.key x) = Inr bal \<Longrightarrow>
   getSubstrateBalance w x c cfg = ([SubstrateQuery a cfg (Asset.key x)], Inr bal)"
  by (simp add: getSubstrateBalance_def getPolkadotApi_def io_simps lift_def)

lemma getErc20Balance_ok:
  "evmCliets w (Chain.key c) = Some client \<Longrightarrow>
   erc20Balance w client cfg (Asset.key x) = Inr bal \<Longrightarrow>
   getErc20Balance w x c cfg = ([Erc20Query client cfg (Asset.key x)], Inr bal)"
  by (simp add: getErc20Balance_def getEvmClient_def io_simps lift_def)

lemma getBalance_after_query:
  assumes "(if type (sourceBalanceConfig addr tc) = Evm
            then getErc20Balance w (TransferConfig.asset tc) (sourceChain tc)
                   (sourceBalanceConfig addr tc)
            else getSubstrateBalance w (TransferConfig.asset tc) (sourceChain tc)
                   (sourceBalanceConfig addr tc)) = (es, Inr bal)"
    and "createPolkadotService w (sourceChain tc) = Inr p"
    and "getAssetDecimals w p (TransferConfig.asset tc) = Inr d"
  shows "getBalance w addr tc = (es, Inr (fromAsset (TransferConfig.asset tc) (Balance.balance bal) d))"
  using assms(2,3) unfolding getBalance_def Let_def assms(1)
  by (simp add: io_simps ret_def)

text \<open>
  Claim C3. On a route whose source balance configuration is tagged \<open>Substrate\<close> (the
  chain query) and whose asset has 12 decimals on the source chain, \<open>getBalance\<close>
  returns an amount for the transfer asset whose \<open>amount\<close> is the raw balance of the
  chain query, unchanged, and whose \<open>decimals\<close> are 12.
\<close>

theorem getBalance_chain_query_unchanged:
  assumes "type (sourceBalanceConfig addr tc) = Substrate"
    and "polkadotApi w (ws (sourceChain tc)) = Inr a"
    and "substrateBalance w a (sourceBalanceConfig addr tc) (Asset.key (TransferConfig.asset tc))
           = Inr raw"
    and "createPolkadotService w (sourceChain tc) = Inr p"
    and "getAssetDecimals w p (TransferConfig.asset tc) = Inr 12"
  shows "\<exists>r. snd (getBalance w addr tc) = Inr r \<and>
             AssetAmount.amount r = Balance.balance raw \<and> decimals r = 12 \<and>
             asAsset r = TransferConfig.asset tc"
proof -
  have "getSubstrateBalance w (TransferConfig.asset tc) (sourceChain tc)
          (sourceBalanceConfig addr tc)
        = ([SubstrateQuery a (sourceBalanceConfig addr tc) (Asset.key (TransferConfig.asset tc))],
           Inr raw)"
    using assms(2,3) by (rule getSubstrateBalance_ok)
  with assms(1) have "getBalance w addr tc =
      ([SubstrateQuery a (sourceBalanceConfig addr tc) (Asset.key (TransferConfig.asset tc))],
       Inr (fromAsset (TransferConfig.asset tc) (Balance.balance raw) 12))"
    by (intro getBalance_after_query [OF _ assms(4,5)]) simp
  then show ?thesis
    by (simp add: fromAsset_def asAsset_def)
qed

lemmas route_defs = routeAB_def routeBA_def configA_def configB_def chainA_def chainB_def
  assetX_def substrateTokens_def erc20_def

theorem getBalance_chain_query_unchanged_witness:
  "\<exists>r. snd (getBalance world ''alice'' routeAB) = Inr r \<and>
        AssetAmount.amount r = 5 \<and> decimals r = 12 \<and> asAsset r = assetX"
proof -
  have 1: "type (sourceBalanceConfig ''alice'' routeAB) = Substrate"
    by (simp add: route_defs)
  have 2: "polkadotApi world (ws (sourceChain routeAB)) = Inr (ApiPromise ''wss://a'')"
    by (simp add: world_def route_defs)
  have 3: "substrateBalance world (ApiPromise ''wss://a'') (sourceBalanceConfig ''alice'' routeAB)
             (Asset.key (TransferConfig.asset routeAB)) = Inr \<lparr>Balance.key = ''x'', balance = 5\<rparr>"
    by (simp add: world_def route_defs)
  have 4: "createPolkadotService world (sourceChain routeAB)
             = Inr \<lparr>PolkadotService.api = ApiPromise ''wss://a'', chain = chainA\<rparr>"
    by (simp add: world_def route_defs)
  have 5: "getAssetDecimals world \<lparr>PolkadotService.api = ApiPromise ''wss://a'', chain = chainA\<rparr>
             (TransferConfig.asset routeAB) = Inr 12"
    by (simp add: world_def route_defs)
  have 6: "TransferConfig.asset routeAB = assetX"
    by (simp add: routeAB_def)
  from getBalance_chain_query_unchanged [OF 1 2 3 4 5] show ?thesis
    by (simp add: 6)
qed


text \<open>
  Claim C2, as amended. For every route and address, \<open>getBalance\<close> dispatches on the tag
  of the balance configuration it builds: the contract-call resolver for \<open>Evm\<close>, the
  chain-query resolver otherwise. It returns the transfer asset with the resolver's raw
  balance as \<open>amount\<close>, unchanged, and with the decimals the directory gives for the asset
  on the source chain.
\<close>

theorem getBalance_dispatch_raw_amount:
  assumes "createPolkadotService w (sourceChain tc) = Inr p"
    and "getAssetDecimals w p (TransferConfig.asset tc) = Inr d"
  shows "(type (sourceBalanceConfig addr tc) = Evm \<longrightarrow>
            evmCliets w (Chain.key (sourceChain tc)) = Some client \<longrightarrow>
            erc20Balance w client (sourceBalanceConfig addr tc)
              (Asset.key (TransferConfig.asset tc)) = Inr bal \<longrightarrow>
            getBalance w addr tc =
              ([Erc20Query client (sourceBalanceConfig addr tc)
                  (Asset.key (TransferConfig.asset tc))],
               Inr (fromAsset (TransferConfig.asset tc) (Balance.balance bal) d))) \<and>
         (type (sourceBalanceConfig addr tc) \<noteq> Evm \<longrightarrow>
            polkadotApi w (ws (sourceChain tc)) = Inr a \<longrightarrow>
            substrateBalance w a (sourceBalanceConfig addr tc)
              (Asset.key (TransferConfig.asset tc)) = Inr bal \<longrightarrow>
            getBalance w addr tc =
              ([SubstrateQuery a (sourceBalanceConfig addr tc)
                  (Asset.key (TransferConfig.asset tc))],
               Inr (fromAsset (TransferConfig.asset tc) (Balance.balance bal) d)))"
proof (intro conjI impI)
  assume "type (sourceBalanceConfig addr tc) = Evm"
    and "evmCliets w (Chain.key (sourceChain tc)) = Some client"
    and "erc20Balance w client (sourceBalanceConfig addr tc)
           (Asset.key (TransferConfig.asset tc)) = Inr bal"
  then show "getBalance w addr tc =
      ([Erc20Query client (sourceBalanceConfig addr tc) (Asset.key (TransferConfig.asset tc))],
       Inr (fromAsset (TransferConfig.asset tc) (Balance.balance bal) d))"
    by (intro getBalance_after_query [OF _ assms]) (simp add: getErc20Balance_ok)
next
  assume "type (sourceBalanceConfig addr tc) \<noteq> Evm"
    and "polkadotApi w (ws (sourceChain tc)) = Inr a"
    and "substrateBalance w a (sourceBalanceConfig addr tc)
           (Asset.key (TransferConfig.asset tc)) = Inr bal"
  then show "getBalance w addr tc =
      ([SubstrateQuery a (sourceBalanceConfig addr tc) (Asset.key (TransferConfig.asset tc))],
       Inr (fromAsset (TransferConfig.asset tc) (Balance.balance bal) d))"
    by (intro getBalance_after_query [OF _ assms]) (simp add: getSubstrateBalance_ok)
qed

theorem getBalance_dispatch_raw_amount_witness:
  "getBalance world ''alice'' routeAB =
     ([SubstrateQuery (ApiPromise ''wss://a'') (substrateTokens
         \<lparr>BalanceParams.address = ''alice'', asset = ''x''\<rparr>) ''x''],
      Inr (fromAsset assetX 5 12)) \<and>
   getBalance world ''alice'' routeBA =
     ([Erc20Query (EvmClient ''b'') (erc20
         \<lparr>BalanceParams.address = ''alice'', asset = ''x''\<rparr>) ''x''],
      Inr (fromAsset assetX 5 18))"
proof -
  have a1: "createPolkadotService world (sourceChain routeAB)
             = Inr \<lparr>PolkadotService.api = ApiPromise ''wss://a'', chain = chainA\<rparr>"
    by (simp add: world_def route_defs)
  have a2: "getAssetDecimals world \<lparr>PolkadotService.api = ApiPromise ''wss://a'', chain = chainA\<rparr>
             (TransferConfig.asset routeAB) = Inr 12"
    by (simp add: world_def route_defs)
  have b1: "createPolkadotService world (sourceChain routeBA)
             = Inr \<lparr>PolkadotService.api = ApiPromise ''wss://b'', chain = chainB\<rparr>"
    by (simp add: world_def route_defs)
  have b2: "getAssetDecimals world \<lparr>PolkadotService.api = ApiPromise ''wss://b'', chain = chainB\<rparr>
             (TransferConfig.asset routeBA) = Inr 18"
    by (simp add: world_def route_defs)
  have a: "getBalance world ''alice'' routeAB =
     ([SubstrateQuery (ApiPromise ''wss://a'') (sourceBalanceConfig ''alice'' routeAB)
         (Asset.key (TransferConfig.asset routeAB))],
      Inr (fromAsset (TransferConfig.asset routeAB) 5 12))"
    using getBalance_dispatch_raw_amount [OF a1 a2, of "''alice''" "EvmClient ''b''"
        "\<lparr>Balance.key = ''x'', balance = 5\<rparr>" "ApiPromise ''wss://a''"]
    by (simp add: world_def route_defs)
  have b: "getBalance world ''alice'' routeBA =
     ([Erc20Query (EvmClient ''b'') (sourceBalanceConfig ''alice'' routeBA)
         (Asset.key (TransferConfig.asset routeBA))],
      Inr (fromAsset (TransferConfig.asset routeBA) 5 18))"
    using getBalance_dispatch_raw_amount [OF b1 b2, of "''alice''" "EvmClient ''b''"
        "\<lparr>Balance.key = ''x'', balance = 5\<rparr>" "ApiPromise ''wss://b''"]
    by (simp add: world_def route_defs)
  show ?thesis
    unfolding a b by (simp add: route_defs)
qed

text \<open>
  Claim C2 as stated fails: from chain \<open>a\<close> (12 decimals) to chain \<open>b\<close> (18 decimals) a
  raw balance of 5 is returned as 5 with 12 decimals, where the conversion into the
  destination's decimals gives 5000000 with 18 decimals.
\<close>

theorem getBalance_destination_normalized_counterexample:
  "snd (getBalance world ''alice'' routeAB) = Inr (fromAsset assetX 5 12) \<and>
   snd (spec_getBalance world ''alice'' routeAB) = Inr (fromAsset assetX 5000000 18) \<and>
   snd (getBalance world ''alice'' routeAB) \<noteq> snd (spec_getBalance world ''alice'' routeAB)"
  by (simp add: getBalance_def spec_getBalance_def getSubstrateBalance_def getPolkadotApi_def
      convertDecimals_def io_simps lift_def ret_def Let_def world_def route_defs fromAsset_def)

section \<open>Properties of the fee balance\<close>

lemma getSubstrateBalance_no_erc20:
  "filter isErc20Query (fst (getSubstrateBalance w x c cfg)) = []"
  by (simp add: getSubstrateBalance_def getPolkadotApi_def await_def lift_def emit_def
      isErc20Query_def split: sum.splits prod.splits)

lemma getFeeBalance_fee:
  assumes "fee (sourceConfig tc) = Some f"
  shows "getFeeBalance w addr tc =
     await (getSubstrateBalance w (TransferConfig.asset tc) (sourceChain tc)
              (feeBalanceConfig f addr tc)) (\<lambda>bal.
     await (lift (createPolkadotService w (sourceChain tc))) (\<lambda>polkadot.
     await (lift (getAssetDecimals w polkadot (FeeAssetConfig.asset f))) (\<lambda>d.
     ret (fromAsset (FeeAssetConfig.asset f) (Balance.balance bal) d))))"
  using assms
  by (simp add: getFeeBalance_def Let_def await_def ret_def split: prod.splits sum.splits)

lemma getFeeBalance_no_fee:
  assumes "fee (sourceConfig tc) = None"
  shows "getFeeBalance w addr tc =
     await (lift (createPolkadotService w (sourceChain tc))) (\<lambda>polkadot.
     await (lift (getAssetDecimals w polkadot (TransferConfig.asset tc))) (\<lambda>d.
     ret (fromAsset (TransferConfig.asset tc) 0 d)))"
  using assms
  by (simp add: getFeeBalance_def Let_def io_simps)

lemma fst_await_lift: "fst (await (lift r) f) = (case r of Inl e \<Rightarrow> [] | Inr x \<Rightarrow> fst (f x))"
  by (simp add: await_def lift_def split: sum.splits prod.splits)

lemma fst_await:
  "fst (await m f) = fst m @ (case snd m of Inl e \<Rightarrow> [] | Inr x \<Rightarrow> fst (f x))"
  by (cases m) (simp add: await_def split: sum.splits prod.splits)

text \<open>
  The branch of \<open>getFeeBalance\<close> for a route with a fee asset: no contract-call query,
  whatever the services answer; when they answer, the one chain query is built by the fee
  asset's balance builder from the balance id of the transfer asset and read under the
  key of the transfer asset, and its balance is returned as the fee asset's.
\<close>

lemma getFeeBalance_fee_branch:
  assumes "fee (sourceConfig tc) = Some f"
  shows "filter isErc20Query (fst (getFeeBalance w addr tc)) = [] \<and>
         (polkadotApi w (ws (sourceChain tc)) = Inr a \<longrightarrow>
          substrateBalance w a (feeBalanceConfig f addr tc)
            (Asset.key (TransferConfig.asset tc)) = Inr bal \<longrightarrow>
          createPolkadotService w (sourceChain tc) = Inr p \<longrightarrow>
          getAssetDecimals w p (FeeAssetConfig.asset f) = Inr d \<longrightarrow>
          getFeeBalance w addr tc =
            ([SubstrateQuery a (feeBalanceConfig f addr tc) (Asset.key (TransferConfig.asset tc))],
             Inr (fromAsset (FeeAssetConfig.asset f) (Balance.balance bal) d)))"
proof
  show "filter isErc20Query (fst (getFeeBalance w addr tc)) = []"
    unfolding getFeeBalance_fee [OF assms]
    by (simp add: fst_await getSubstrateBalance_no_erc20 lift_def ret_def
        split: sum.splits)
next
  show "polkadotApi w (ws (sourceChain tc)) = Inr a \<longrightarrow>
          substrateBalance w a (feeBalanceConfig f addr tc)
            (Asset.key (TransferConfig.asset tc)) = Inr bal \<longrightarrow>
          createPolkadotService w (sourceChain tc) = Inr p \<longrightarrow>
          getAssetDecimals w p (FeeAssetConfig.asset f) = Inr d \<longrightarrow>
          getFeeBalance w addr tc =
            ([SubstrateQuery a (feeBalanceConfig f addr tc) (Asset.key (TransferConfig.asset tc))],
             Inr (fromAsset (FeeAssetConfig.asset f) (Balance.balance bal) d))"
    unfolding getFeeBalance_fee [OF assms]
    by (simp add: getSubstrateBalance_ok io_simps ret_def)
qed

lemmas fee_route_defs = routeFee_def feeY_def assetY_def route_defs

text \<open>
  Claim C4, at the route out of chain \<open>a\<close> with transfer asset \<open>x\<close> and fee asset \<open>y\<close>,
  where the chain holds 5 of \<open>x\<close> and 99 of \<open>y\<close> for the address: \<open>getFeeBalance\<close> makes
  a chain query only, but the query is for the asset id \<open>x\<close> under the key \<open>x\<close>, and the
  amount returned for the fee asset \<open>y\<close> is 5, the balance of \<open>x\<close>, where the balance of
  the fee asset, queried with its own id, is 99.
\<close>

theorem getFeeBalance_queries_transfer_asset:
  "getFeeBalance worldBalances ''alice'' routeFee =
     ([SubstrateQuery (ApiPromise ''wss://a'')
         (substrateTokens \<lparr>BalanceParams.address = ''alice'', asset = ''x''\<rparr>) ''x''],
      Inr (fromAsset assetY 5 12)) \<and>
   substrateBalance worldBalances (ApiPromise ''wss://a'')
     (FeeAssetConfig.balance feeY
        \<lparr>BalanceParams.address = ''alice'', asset = getBalanceAssetId chainA assetY\<rparr>)
     (Asset.key assetY) = Inr \<lparr>Balance.key = ''y'', balance = 99\<rparr>"
proof -
  have f: "fee (sourceConfig routeFee) = Some feeY"
    by (simp add: routeFee_def)
  have 1: "polkadotApi worldBalances (ws (sourceChain routeFee)) = Inr (ApiPromise ''wss://a'')"
    by (simp add: worldBalances_def world_def fee_route_defs)
  have 5: "feeBalanceConfig feeY ''alice'' routeFee =
      substrateTokens \<lparr>BalanceParams.address = ''alice'', asset = ''x''\<rparr>"
    by (simp add: fee_route_defs)
  have 6: "Asset.key (TransferConfig.asset routeFee) = ''x''" "FeeAssetConfig.asset feeY = assetY"
    by (simp_all add: fee_route_defs)
  have 2: "substrateBalance worldBalances (ApiPromise ''wss://a'')
             (substrateTokens \<lparr>BalanceParams.address = ''alice'', asset = ''x''\<rparr>) ''x''
           = Inr \<lparr>Balance.key = ''x'', balance = 5\<rparr>"
    by (simp add: worldBalances_def world_def substrateTokens_def)
  have 3: "createPolkadotService worldBalances (sourceChain routeFee)
             = Inr \<lparr>PolkadotService.api = ApiPromise ''wss://a'', chain = chainA\<rparr>"
    by (simp add: worldBalances_def world_def fee_route_defs)
  have 4: "getAssetDecimals worldBalances
             \<lparr>PolkadotService.api = ApiPromise ''wss://a'', chain = chainA\<rparr> assetY = Inr 12"
    by (simp add: worldBalances_def world_def chainA_def)
  have r: "getFeeBalance worldBalances ''alice'' routeFee =
     ([SubstrateQuery (ApiPromise ''wss://a'')
         (substrateTokens \<lparr>BalanceParams.address = ''alice'', asset = ''x''\<rparr>) ''x''],
      Inr (fromAsset assetY 5 12))"
    using getFeeBalance_fee_branch [OF f, of worldBalances "''alice''"
        "ApiPromise ''wss://a''" "\<lparr>Balance.key = ''x'', balance = 5\<rparr>"
        "\<lparr>PolkadotService.api = ApiPromise ''wss://a'', chain = chainA\<rparr>" 12]
      1 2 3 4 unfolding 5 6 by simp
  have y: "substrateBalance worldBalances (ApiPromise ''wss://a'')
     (FeeAssetConfig.balance feeY
        \<lparr>BalanceParams.address = ''alice'', asset = getBalanceAssetId chainA assetY\<rparr>)
     (Asset.key assetY) = Inr \<lparr>Balance.key = ''y'', balance = 99\<rparr>"
    by (simp add: worldBalances_def world_def feeY_def substrateTokens_def chainA_def assetY_def)
  from r y show ?thesis by simp
qed

lemma getSubstrateBalance_Inr:
  assumes "snd (getSubstrateBalance w x c cfg) = Inr bal"
  shows "\<exists>a. polkadotApi w (ws c) = Inr a \<and> substrateBalance w a cfg (Asset.key x) = Inr bal"
  using assms
  by (simp add: getSubstrateBalance_def getPolkadotApi_def await_def lift_def emit_def
      split: sum.splits prod.splits)

lemma asAsset_fromAsset: "asAsset (fromAsset (x::Asset) n d) = x"
  by (cases x) (simp add: asAsset_def fromAsset_def)

lemma amount_fromAsset: "AssetAmount.amount (fromAsset x n d) = n"
  by (simp add: fromAsset_def)

lemma decimals_fromAsset: "decimals (fromAsset x n d) = d"
  by (simp add: fromAsset_def)

lemma snd_await_Inr:
  "snd (await m f) = Inr y \<longleftrightarrow> (\<exists>x. snd m = Inr x \<and> snd (f x) = Inr y)"
  by (cases m) (auto simp: await_def split: sum.splits prod.splits)

text \<open>
  Claim C7. On every route that declares no fee asset, \<open>getFeeBalance\<close> issues no balance
  query and returns the transfer asset with amount 0 and the decimals the directory gives
  for the transfer asset. The zero is its only default: whenever \<open>getFeeBalance\<close> returns
  an amount, the service and the decimal lookup succeeded, and the amount is 0 on a route
  with no fee asset and the balance the chain query answered on a route with one; so an
  error of a service is never replaced by a value.
\<close>

theorem getFeeBalance_zero_fallback_only:
  "(fee (sourceConfig tc) = None \<longrightarrow>
      filter isBalanceQuery (fst (getFeeBalance w addr tc)) = [] \<and>
      (\<forall>p d. createPolkadotService w (sourceChain tc) = Inr p \<longrightarrow>
             getAssetDecimals w p (TransferConfig.asset tc) = Inr d \<longrightarrow>
             getFeeBalance w addr tc = ([], Inr (fromAsset (TransferConfig.asset tc) 0 d)))) \<and>
   (\<forall>r. snd (getFeeBalance w addr tc) = Inr r \<longrightarrow>
      (\<exists>p. createPolkadotService w (sourceChain tc) = Inr p \<and>
           getAssetDecimals w p (asAsset r) = Inr (decimals r)) \<and>
      (case fee (sourceConfig tc) of
         None \<Rightarrow> AssetAmount.amount r = 0 \<and> asAsset r = TransferConfig.asset tc
       | Some f \<Rightarrow>
           asAsset r = FeeAssetConfig.asset f \<and>
           (\<exists>a bal. polkadotApi w (ws (sourceChain tc)) = Inr a \<and>
              substrateBalance w a (feeBalanceConfig f addr tc)
                (Asset.key (TransferConfig.asset tc)) = Inr bal \<and>
              AssetAmount.amount r = Balance.balance bal)))"
proof (cases "fee (sourceConfig tc)")
  case None
  have q: "filter isBalanceQuery (fst (getFeeBalance w addr tc)) = []"
    unfolding getFeeBalance_no_fee [OF None]
    by (simp add: fst_await lift_def ret_def split: sum.splits)
  have z: "getFeeBalance w addr tc = ([], Inr (fromAsset (TransferConfig.asset tc) 0 d))"
    if "createPolkadotService w (sourceChain tc) = Inr p"
      and "getAssetDecimals w p (TransferConfig.asset tc) = Inr d" for p d
    unfolding getFeeBalance_no_fee [OF None] using that
    by (simp add: io_simps ret_def)
  have r: "(\<exists>p. createPolkadotService w (sourceChain tc) = Inr p \<and>
                getAssetDecimals w p (asAsset r) = Inr (decimals r)) \<and>
           AssetAmount.amount r = 0 \<and> asAsset r = TransferConfig.asset tc"
    if "snd (getFeeBalance w addr tc) = Inr r" for r
    using that unfolding getFeeBalance_no_fee [OF None]
    by (auto simp: snd_await_Inr lift_def ret_def asAsset_fromAsset amount_fromAsset
        decimals_fromAsset)
  from q z r show ?thesis unfolding None by auto
next
  case (Some f)
  have r: "(\<exists>p. createPolkadotService w (sourceChain tc) = Inr p \<and>
                getAssetDecimals w p (asAsset r) = Inr (decimals r)) \<and>
           asAsset r = FeeAssetConfig.asset f \<and>
           (\<exists>a bal. polkadotApi w (ws (sourceChain tc)) = Inr a \<and>
              substrateBalance w a (feeBalanceConfig f addr tc)
                (Asset.key (TransferConfig.asset tc)) = Inr bal \<and>
              AssetAmount.amount r = Balance.balance bal)"
    if "snd (getFeeBalance w addr tc) = Inr r" for r
  proof -
    from that obtain bal p d
      where b: "snd (getSubstrateBalance w (TransferConfig.asset tc) (sourceChain tc)
                  (feeBalanceConfig f addr tc)) = Inr bal"
        and p: "createPolkadotService w (sourceChain tc) = Inr p"
        and d: "getAssetDecimals w p (FeeAssetConfig.asset f) = Inr d"
        and r: "r = fromAsset (FeeAssetConfig.asset f) (Balance.balance bal) d"
      unfolding getFeeBalance_fee [OF Some]
      by (auto simp: snd_await_Inr lift_def ret_def)
    from getSubstrateBalance_Inr [OF b] p d r show ?thesis
      by (auto simp: asAsset_fromAsset amount_fromAsset decimals_fromAsset)
  qed
  from r show ?thesis unfolding Some by auto
qed

theorem getFeeBalance_zero_fallback_only_witness:
  "getFeeBalance world ''alice'' routeAB = ([], Inr (fromAsset assetX 0 12)) \<and>
   filter isBalanceQuery (fst (getFeeBalance world ''alice'' routeAB)) = [] \<and>
   snd (getFeeBalance world ''alice'' routeFee) = Inr (fromAsset assetY 5 12) \<and>
   (\<exists>a bal. polkadotApi world (ws (sourceChain routeFee)) = Inr a \<and>
      substrateBalance world a (feeBalanceConfig feeY ''alice'' routeFee)
        (Asset.key (TransferConfig.asset routeFee)) = Inr bal \<and>
      AssetAmount.amount (fromAsset assetY 5 12) = Balance.balance bal)"
proof -
  have n: "fee (sourceConfig routeAB) = None"
    by (simp add: route_defs)
  have 1: "createPolkadotService world (sourceChain routeAB)
             = Inr \<lparr>PolkadotService.api = ApiPromise ''wss://a'', chain = chainA\<rparr>"
    by (simp add: world_def route_defs)
  have 2: "getAssetDecimals world \<lparr>PolkadotService.api = ApiPromise ''wss://a'', chain = chainA\<rparr>
             (TransferConfig.asset routeAB) = Inr 12"
    by (simp add: world_def route_defs)
  have 3: "TransferConfig.asset routeAB = assetX"
    by (simp add: routeAB_def)
  have f: "fee (sourceConfig routeFee) = Some feeY"
    by (simp add: routeFee_def)
  have 4: "snd (getFeeBalance world ''alice'' routeFee) = Inr (fromAsset assetY 5 12)"
    unfolding getFeeBalance_fee [OF f]
    by (simp add: getSubstrateBalance_def getPolkadotApi_def
        io_simps lift_def ret_def world_def fee_route_defs)
  from getFeeBalance_zero_fallback_only [of routeAB world "''alice''"] n 1 2 3
  have a: "getFeeBalance world ''alice'' routeAB = ([], Inr (fromAsset assetX 0 12)) \<and>
      filter isBalanceQuery (fst (getFeeBalance world ''alice'' routeAB)) = []"
    by simp
  from getFeeBalance_zero_fallback_only [of routeFee world "''alice''"] f 4
  have b: "\<exists>a bal. polkadotApi world (ws (sourceChain routeFee)) = Inr a \<and>
      substrateBalance world a (feeBalanceConfig feeY ''alice'' routeFee)
        (Asset.key (TransferConfig.asset routeFee)) = Inr bal \<and>
      AssetAmount.amount (fromAsset assetY 5 12) = Balance.balance bal"
    by simp
  from a b 4 show ?thesis by simp
qed

section \<open>Properties of the decimal normalizer\<close>

lemma convertDecimals_up:
  "0 \<le> n \<Longrightarrow> d1 \<le> d2 \<Longrightarrow> convertDecimals n d1 d2 = Inr (n * 10 ^ (d2 - d1))"
  by (simp add: convertDecimals_def)

lemma convertDecimals_down:
  "0 \<le> n \<Longrightarrow> d2 < d1 \<Longrightarrow> convertDecimals n d1 d2 = Inr (n div 10 ^ (d1 - d2))"
  by (simp add: convertDecimals_def)

lemma roundTrip_up:
  assumes "0 \<le> n" and "d1 \<le> d2"
  shows "roundTrip n d1 d2 = Inr n"
proof (cases "d1 = d2")
  case True
  with assms show ?thesis
    by (simp add: roundTrip_def convertDecimals_def)
next
  case False
  with assms have lt: "d1 < d2" by simp
  from assms(1) have "0 \<le> n * 10 ^ (d2 - d1)" by simp
  with assms(1) lt show ?thesis
    by (simp add: roundTrip_def convertDecimals_up convertDecimals_down)
qed

lemma roundTrip_down:
  assumes "0 \<le> n" and "d2 < d1"
  shows "roundTrip n d1 d2 = Inr (n div 10 ^ (d1 - d2) * 10 ^ (d1 - d2))"
proof -
  from assms(1) have "0 \<le> n div 10 ^ (d1 - d2)"
    by (simp add: pos_imp_zdiv_nonneg_iff)
  with assms show ?thesis
    by (simp add: roundTrip_def convertDecimals_up convertDecimals_down)
qed

lemma div_mult_le_int:
  fixes n k :: int
  assumes "0 < k"
  shows "n div k * k \<le> n"
proof -
  have "n div k * k + n mod k = n" by simp
  moreover have "0 \<le> n mod k" using assms by simp
  ultimately show ?thesis by linarith
qed

lemma div_mult_eq_iff_dvd:
  fixes n k :: int
  shows "n div k * k = n \<longleftrightarrow> k dvd n"
  by (metis dvd_div_mult_self dvd_triv_right)

text \<open>
  Claim C8, as amended. For every amount \<open>n \<ge> 0\<close> and decimal counts \<open>d1\<close>, \<open>d2\<close>:
  converting upward multiplies by \<open>10^(d2 - d1)\<close> exactly; converting downward truncates
  toward zero; converting from \<open>d1\<close> to \<open>d2\<close> and back gives a value \<open>\<le> n\<close>, equal to
  \<open>n\<close> if and only if \<open>d2 \<ge> d1\<close> or \<open>10^(d1 - d2)\<close> divides \<open>n\<close>.
\<close>

theorem convertDecimals_round_trip:
  assumes "0 \<le> n"
  shows "(d1 \<le> d2 \<longrightarrow> convertDecimals n d1 d2 = Inr (n * 10 ^ (d2 - d1))) \<and>
         (d2 < d1 \<longrightarrow>
            (\<exists>q. convertDecimals n d1 d2 = Inr q \<and> 0 \<le> q \<and>
                 q * 10 ^ (d1 - d2) \<le> n \<and> n < (q + 1) * 10 ^ (d1 - d2))) \<and>
         (\<exists>m. roundTrip n d1 d2 = Inr m \<and> m \<le> n \<and>
              (m = n \<longleftrightarrow> d1 \<le> d2 \<or> 10 ^ (d1 - d2) dvd n))"
proof (intro conjI impI)
  assume "d1 \<le> d2"
  with assms show "convertDecimals n d1 d2 = Inr (n * 10 ^ (d2 - d1))"
    by (rule convertDecimals_up)
next
  assume lt: "d2 < d1"
  let ?k = "(10::int) ^ (d1 - d2)"
  have k: "0 < ?k" by simp
  have "0 \<le> n div ?k"
    using assms by (simp add: pos_imp_zdiv_nonneg_iff)
  moreover have "n div ?k * ?k \<le> n"
    using k by (rule div_mult_le_int)
  moreover have "n < (n div ?k + 1) * ?k"
  proof -
    have "n div ?k * ?k + n mod ?k = n" by (rule div_mult_mod_eq)
    moreover have "n mod ?k < ?k" using k by (rule pos_mod_bound)
    ultimately show ?thesis by (simp only: distrib_right mult_1)
  qed
  ultimately show "\<exists>q. convertDecimals n d1 d2 = Inr q \<and> 0 \<le> q \<and>
      q * ?k \<le> n \<and> n < (q + 1) * ?k"
    using convertDecimals_down [OF assms lt] by blast
next
  show "\<exists>m. roundTrip n d1 d2 = Inr m \<and> m \<le> n \<and>
          (m = n \<longleftrightarrow> d1 \<le> d2 \<or> 10 ^ (d1 - d2) dvd n)"
  proof (cases "d1 \<le> d2")
    case True
    with assms show ?thesis by (simp add: roundTrip_up)
  next
    case False
    then have lt: "d2 < d1" by simp
    let ?k = "(10::int) ^ (d1 - d2)"
    have "n div ?k * ?k \<le> n"
      by (rule div_mult_le_int) simp
    with lt show ?thesis
      by (simp add: roundTrip_down [OF assms lt] div_mult_eq_iff_dvd)
  qed
qed

theorem convertDecimals_round_trip_witness:
  "convertDecimals 5 12 18 = Inr 5000000 \<and>
   (\<exists>q. convertDecimals 1234567 6 2 = Inr q \<and> 0 \<le> q \<and> q * 10 ^ 4 \<le> 1234567 \<and>
        1234567 < (q + 1) * 10 ^ 4) \<and>
   (\<exists>m. roundTrip 1234567 6 2 = Inr m \<and> m \<le> 1234567 \<and> m \<noteq> 1234567)"
proof -
  have "\<not> (10::int) ^ 4 dvd 1234567" by simp
  with convertDecimals_round_trip [of 5 12 18] convertDecimals_round_trip [of 1234567 6 2]
  show ?thesis by simp
qed

text \<open>
  Claim C8 as stated fails: 100 converted from 2 decimals to 1 and back is 100 again,
  although \<open>d2 < d1\<close>.
\<close>

theorem convertDecimals_round_trip_counterexample:
  "\<not> (roundTrip 100 2 1 = Inr 100 \<longleftrightarrow> (2::nat) \<le> 1)"
  by (simp add: roundTrip_def convertDecimals_def)

section \<open>Properties of the source fee\<close>

lemma buildTransfer_Inr_events:
  assumes "buildTransfer amt d f tc = (bes, Inr transfer)"
  shows "\<exists>ev. bes = [ev] \<and> isBuild ev"
  using assms
  by (auto simp: buildTransfer_def Let_def await_emit ret_def throw_def isBuild_def
      split: option.splits)

lemma getSourceFee_evm:
  assumes "createPolkadotService w (sourceChain tc) = Inr p"
    and "getAssetDecimals w p (asAsset dstFee) = Inr d"
    and "buildTransfer amt dstAddress dstFee tc = (bes, Inr transfer)"
    and "type transfer = Evm"
    and "evmCliets w (Chain.key (sourceChain tc)) = Some client"
    and "xTokensGetFee w transfer (getProvider client) amt = Inr raw"
    and "convertDecimals raw 18 d = Inr scaled"
  shows "getSourceFee w amt srcAddress dstAddress dstFee tc =
           (bes @ [EvmFeeEstimate transfer (getProvider client) amt],
            Inr (fromAsset dstFee scaled d))"
  using assms(1,2,4-7) unfolding getSourceFee_def Let_def assms(3)
  by (simp add: io_simps lift_def ret_def)

text \<open>
  Claim C6, as amended. On every route whose built transfer call is tagged \<open>Evm\<close>, and
  where the decimals the directory resolves on the source chain for the asset of the
  destination fee handed to \<open>getSourceFee\<close> are the decimals \<open>n\<close> of the source chain's
  native asset, \<open>getSourceFee\<close> first builds the transfer call (one builder call in the
  trace) and then estimates the fee with the contract-call estimator, scaling the raw
  18-decimal fee to the source chain's native decimal count \<open>n\<close>: the raw fee times
  \<open>10^(n - 18)\<close> above 18 decimals, and the raw fee divided by \<open>10^(18 - n)\<close>, truncated,
  otherwise. In particular a raw fee of 21000000000000000 scaled from 18 to 12 decimals
  is 21000000000.
\<close>

theorem getSourceFee_evm_scaled:
  assumes "createPolkadotService w (sourceChain tc) = Inr p"
    and "getAssetDecimals w p nativeAsset = Inr n"
    and "getAssetDecimals w p (asAsset dstFee) = Inr n"
    and "buildTransfer amt dstAddress dstFee tc = (bes, Inr transfer)"
    and "type transfer = Evm"
    and "evmCliets w (Chain.key (sourceChain tc)) = Some client"
    and "xTokensGetFee w transfer (getProvider client) amt = Inr raw"
    and "0 \<le> raw"
  shows "(\<exists>ev. bes = [ev] \<and> isBuild ev) \<and>
         fst (getSourceFee w amt srcAddress dstAddress dstFee tc) =
           bes @ [EvmFeeEstimate transfer (getProvider client) amt] \<and>
         snd (getSourceFee w amt srcAddress dstAddress dstFee tc) =
           Inr (fromAsset dstFee
                  (if 18 < n then raw * 10 ^ (n - 18) else raw div 10 ^ (18 - n)) n) \<and>
         convertDecimals 21000000000000000 18 12 = Inr 21000000000"
proof -
  have c: "convertDecimals raw 18 n =
      Inr (if 18 < n then raw * 10 ^ (n - 18) else raw div 10 ^ (18 - n))"
    using assms(8) by (simp add: convertDecimals_def)
  from buildTransfer_Inr_events [OF assms(4)] obtain ev where ev: "bes = [ev]" "isBuild ev"
    by blast
  have k: "convertDecimals 21000000000000000 18 12 = Inr 21000000000"
    by (simp add: convertDecimals_def)
  from getSourceFee_evm [OF assms(1) assms(3-7) c, of srcAddress] ev k show ?thesis
    by simp
qed

lemmas evm_route_defs = route_defs xTokensContract_def contractParams_def dstFee7_def

lemma buildTransfer_BA:
  "buildTransfer 5 ''bob'' f routeBA =
     ([ContractBuild (contractParams 5 ''bob'' f routeBA)],
      Inr (xTokensContract (contractParams 5 ''bob'' f routeBA)))"
  by (rule buildTransfer_contract) (simp_all add: routeBA_def configB_def)

theorem getSourceFee_evm_scaled_witness:
  "fst (getSourceFee world12 5 ''alice'' ''bob'' dstFee7 routeBA) =
     [ContractBuild (contractParams 5 ''bob'' dstFee7 routeBA),
      EvmFeeEstimate (xTokensContract (contractParams 5 ''bob'' dstFee7 routeBA))
        (Provider ''b'') 5] \<and>
   snd (getSourceFee world12 5 ''alice'' ''bob'' dstFee7 routeBA) =
     Inr (fromAsset dstFee7 21000000000 12)"
proof -
  let ?p = "\<lparr>PolkadotService.api = ApiPromise ''wss://b'', chain = chainB\<rparr>"
  let ?t = "xTokensContract (contractParams 5 ''bob'' dstFee7 routeBA)"
  have 1: "createPolkadotService world12 (sourceChain routeBA) = Inr ?p"
    by (simp add: world12_def world_def route_defs)
  have 2: "getAssetDecimals world12 ?p y = Inr 12" for y
    by (simp add: world12_def world_def)
  have 4: "type ?t = Evm"
    by (simp add: xTokensContract_def)
  have 5: "evmCliets world12 (Chain.key (sourceChain routeBA)) = Some (EvmClient ''b'')"
    by (simp add: world12_def world_def route_defs)
  have 6: "xTokensGetFee world12 ?t (getProvider (EvmClient ''b'')) 5 = Inr 21000000000000000"
    by (simp add: world12_def world_def)
  have 7: "(0::int) \<le> 21000000000000000" by simp
  from getSourceFee_evm_scaled [where nativeAsset = assetY and srcAddress = "''alice''",
      OF 1 2 2 buildTransfer_BA 4 5 6 7]
  show ?thesis
    by (auto simp: getProvider_def)
qed

lemma getSourceFee_BA:
  assumes "createPolkadotService w chainB = Inr p"
    and "getAssetDecimals w p (asAsset f) = Inr d"
    and "evmCliets w ''b'' = Some client"
    and "xTokensGetFee w (xTokensContract (contractParams 5 ''bob'' f routeBA))
           (getProvider client) 5 = Inr 21000000000000000"
    and "convertDecimals 21000000000000000 18 d = Inr scaled"
  shows "snd (getSourceFee w 5 ''alice'' ''bob'' f routeBA) = Inr (fromAsset f scaled d)"
proof -
  have s: "sourceChain routeBA = chainB" "Chain.key chainB = ''b''"
    by (simp_all add: routeBA_def chainB_def)
  have t: "type (xTokensContract (contractParams 5 ''bob'' f routeBA)) = Evm"
    by (simp add: xTokensContract_def)
  from getSourceFee_evm [of w routeBA p f d 5 "''bob''" _ _ client _ scaled "''alice''",
      OF _ _ buildTransfer_BA t] assms s
  show ?thesis by simp
qed

text \<open>
  Claim C6 as stated fails twice. With 12 decimals on the source chain the raw fee
  21000000000000000 comes back as 21000000000, not as 21000000. And on one and the same
  source chain the fee is scaled to 12 decimals when the destination fee handed in is in
  asset \<open>x\<close> and to 6 decimals when it is in asset \<open>y\<close>: the count scaled to is the one
  the directory resolves for that asset, so it is not the chain's native count in both.
\<close>

theorem getSourceFee_evm_scaled_counterexample:
  "snd (getSourceFee world12 5 ''alice'' ''bob'' dstFee7 routeBA) =
     Inr (fromAsset dstFee7 21000000000 12) \<and>
   snd (getSourceFee world12 5 ''alice'' ''bob'' dstFee7 routeBA) \<noteq>
     Inr (fromAsset dstFee7 21000000 12) \<and>
   convertDecimals 21000000000000000 18 12 \<noteq> Inr 21000000 \<and>
   snd (getSourceFee worldDecimals 5 ''alice'' ''bob'' (fromAsset assetX 7 18) routeBA) =
     Inr (fromAsset assetX 21000000000 12) \<and>
   snd (getSourceFee worldDecimals 5 ''alice'' ''bob'' (fromAsset assetY 7 18) routeBA) =
     Inr (fromAsset assetY 21000 6)"
proof -
  let ?p = "\<lparr>PolkadotService.api = ApiPromise ''wss://b'', chain = chainB\<rparr>"
  have c12: "convertDecimals 21000000000000000 18 12 = Inr 21000000000"
    and c6: "convertDecimals 21000000000000000 18 6 = Inr 21000"
    by (simp_all add: convertDecimals_def)
  have a: "snd (getSourceFee world12 5 ''alice'' ''bob'' dstFee7 routeBA) =
      Inr (fromAsset dstFee7 21000000000 12)"
    by (rule getSourceFee_BA [where p = ?p and client = "EvmClient ''b''", OF _ _ _ _ c12])
      (simp_all add: world12_def world_def chainB_def)
  have x: "snd (getSourceFee worldDecimals 5 ''alice'' ''bob'' (fromAsset assetX 7 18) routeBA) =
      Inr (fromAsset (fromAsset assetX 7 18) 21000000000 12)"
    by (rule getSourceFee_BA [where p = ?p and client = "EvmClient ''b''", OF _ _ _ _ c12])
      (simp_all add: worldDecimals_def world_def chainB_def asAsset_def fromAsset_def
        assetX_def)
  have y: "snd (getSourceFee worldDecimals 5 ''alice'' ''bob'' (fromAsset assetY 7 18) routeBA) =
      Inr (fromAsset (fromAsset assetY 7 18) 21000 6)"
    by (rule getSourceFee_BA [where p = ?p and client = "EvmClient ''b''", OF _ _ _ _ c6])
      (simp_all add: worldDecimals_def world_def chainB_def asAsset_def fromAsset_def
        assetY_def)
  from a x y c12 show ?thesis
    by (simp add: fromAsset_def)
qed

section \<open>The source data\<close>

lemma getTransferConfig_AB:
  "getTransferConfig world chainA chainB assetX = ([], Inr routeAB)"
  by (simp add: getTransferConfig_def lift_def world_def chainA_def chainB_def)

lemma getBalance_AB:
  "getBalance world ''alice'' routeAB =
     ([SubstrateQuery (ApiPromise ''wss://a'')
         (substrateTokens \<lparr>BalanceParams.address = ''alice'', asset = ''x''\<rparr>) ''x''],
      Inr (fromAsset assetX 5 12))"
  by (simp add: getBalance_def getSubstrateBalance_def getPolkadotApi_def
      io_simps lift_def ret_def Let_def world_def route_defs)

lemma getFeeBalance_AB:
  "getFeeBalance world ''alice'' routeAB = ([], Inr (fromAsset assetX 0 12))"
  by (simp add: getFeeBalance_def io_simps lift_def ret_def Let_def world_def route_defs)

lemma getDestinationFee_AB:
  "getDestinationFee world routeAB = ([], Inr (fromAsset assetX 7 18))"
  by (simp add: getDestinationFee_def io_simps lift_def ret_def Let_def world_def route_defs)

lemma getSourceFee_AB:
  "getSourceFee world 5 ''alice'' ''bob'' (fromAsset assetX 7 18) routeAB =
     ([ExtrinsicBuild (extrinsicParams 5 ''bob'' (fromAsset assetX 7 18) routeAB),
       SubstrateFeeEstimate ''alice''
         (xTokensExtrinsic (extrinsicParams 5 ''bob'' (fromAsset assetX 7 18) routeAB))],
      Inr (fromAsset assetX 3 12))"
proof -
  have b: "buildTransfer 5 ''bob'' (fromAsset assetX 7 18) routeAB =
      ([ExtrinsicBuild (extrinsicParams 5 ''bob'' (fromAsset assetX 7 18) routeAB)],
       Inr (xTokensExtrinsic (extrinsicParams 5 ''bob'' (fromAsset assetX 7 18) routeAB)))"
    by (rule buildTransfer_extrinsic) (simp add: routeAB_def configA_def)
  have t: "type (xTokensExtrinsic q) = Substrate" for q
    by (simp add: xTokensExtrinsic_def)
  have s: "createPolkadotService world (sourceChain routeAB) =
      Inr \<lparr>PolkadotService.api = ApiPromise ''wss://a'', chain = chainA\<rparr>"
    by (simp add: world_def route_defs)
  have d: "getAssetDecimals world \<lparr>PolkadotService.api = ApiPromise ''wss://a'', chain = chainA\<rparr> y
      = Inr 12" for y
    by (simp add: world_def chainA_def)
  have g: "polkadotGetFee world q addr cfg = Inr 3" for q addr cfg
    by (simp add: world_def)
  show ?thesis
    unfolding getSourceFee_def Let_def b
    by (simp add: s d g t io_simps lift_def ret_def fromAsset_def)
qed

text \<open>
  Claim C1, at the route from chain \<open>a\<close> to chain \<open>b\<close>: \<open>getSourceData\<close> computes the
  four amounts with \<open>getBalance\<close>, \<open>getFeeBalance\<close>, \<open>getDestinationFee\<close> and
  \<open>getSourceFee\<close> and writes each to the console, but what it returns holds none of
  them: its result is the empty value.
\<close>

theorem getSourceData_returns_no_value:
  "snd (getSourceData world ''alice'' chainA ''bob'' chainB assetX) = Inr () \<and>
   filter isConsoleLog (fst (getSourceData world ''alice'' chainA ''bob'' chainB assetX)) =
     [ConsoleLog (fromAsset assetX 5 12), ConsoleLog (fromAsset assetX 0 12),
      ConsoleLog (fromAsset assetX 7 18), ConsoleLog (fromAsset assetX 3 12)]"
  unfolding getSourceData_def getTransferConfig_AB
  by (simp add: io_simps getBalance_AB getFeeBalance_AB getDestinationFee_AB
      amount_fromAsset getSourceFee_AB ret_def isConsoleLog_def)

section \<open>Properties of the subscription fan-in\<close>





end
